theory Spec2Isabelle
  imports Complex_Main
begin
section \<open>Python values used by the driver\<close>

text \<open>
  A Python float is a finite rational, an infinity or a NaN.  The driver never computes
  with floats, it only carries them, so no rounding is modelled here: rounding belongs to
  the conversions, which are parameters below.
\<close>

datatype pyfloat = Finite rat | PosInf | NegInf | NaN

text \<open>
  The values that \<open>json.loads\<close> can return, which are also the values a loop packet
  holds.  A \<open>dict\<close> keeps its insertion order, so it is an association list.
\<close>

datatype pyval =
    PNone
  | PBool bool
  | PInt int
  | PFloat pyfloat
  | PStr string
  | PList "pyval list"
  | PDict "(string \<times> pyval) list"

type_synonym 'v dict = "(string \<times> 'v) list"

datatype exn = ValueError | TypeError | OverflowError | NameError | UnicodeDecodeError

type_synonym bytes = "nat list"

text \<open>
  Library functions the driver calls and whose code is not part of the driver:
  \<open>json.loads\<close> (\<open>Inl r\<close>: it raised, \<open>r\<close> is the \<open>repr\<close> of the exception),
  \<open>float\<close> on a string (\<open>None\<close>: \<open>ValueError\<close>), \<open>float\<close> on an integer beyond
  the exactly representable range (\<open>None\<close>: \<open>OverflowError\<close>),
  \<open>bytes.decode('utf-8')\<close> (\<open>None\<close>: \<open>UnicodeDecodeError\<close>), the clock
  (\<open>clock n\<close> is \<open>int(time.time())\<close> at the \<open>n\<close>-th reading), and the longest time,
  in seconds, that \<open>time.sleep\<close> accepts on the platform.
\<close>

record builtins =
  json_loads :: "string \<Rightarrow> string + pyval"
  float_of_str :: "string \<Rightarrow> pyfloat option"
  float_of_int :: "int \<Rightarrow> pyfloat option"
  utf8_decode :: "bytes \<Rightarrow> string option"
  clock :: "nat \<Rightarrow> int"
  sleep_max :: rat

text \<open>\<open>k in d\<close>, \<open>d[k] = v\<close> and \<open>d.get(k, default)\<close> on a dict.\<close>

definition dict_has :: "'v dict \<Rightarrow> string \<Rightarrow> bool" where
  "dict_has d k = (map_of d k \<noteq> None)"

primrec dict_set :: "'v dict \<Rightarrow> string \<Rightarrow> 'v \<Rightarrow> 'v dict" where
  "dict_set [] k v = [(k, v)]"
| "dict_set (p # ps) k v = (if fst p = k then (k, v) # ps else p # dict_set ps k v)"

definition dict_get :: "'v dict \<Rightarrow> string \<Rightarrow> 'v \<Rightarrow> 'v" where
  "dict_get d k dflt = (case map_of d k of None \<Rightarrow> dflt | Some v \<Rightarrow> v)"

text \<open>The builtin \<open>float(x)\<close>.  A \<open>bool\<close> is an \<open>int\<close>; integers up to \<open>2^53\<close> in
  magnitude convert exactly.\<close>

fun py_float :: "builtins \<Rightarrow> pyval \<Rightarrow> exn + pyfloat" where
  "py_float env (PFloat f) = Inr f"
| "py_float env (PInt n) =
     (if \<bar>n\<bar> \<le> 2 ^ 53 then Inr (Finite (of_int n))
      else (case float_of_int env n of None \<Rightarrow> Inl OverflowError | Some f \<Rightarrow> Inr f))"
| "py_float env (PBool b) = Inr (Finite (if b then 1 else 0))"
| "py_float env (PStr s) =
     (case float_of_str env s of None \<Rightarrow> Inl ValueError | Some f \<Rightarrow> Inr f)"
| "py_float env PNone = Inl TypeError"
| "py_float env (PList xs) = Inl TypeError"
| "py_float env (PDict d) = Inl TypeError"

text \<open>The name of \<open>type(x)\<close>, as the log messages print it.\<close>

fun py_type :: "pyval \<Rightarrow> string" where
  "py_type PNone = ''NoneType''"
| "py_type (PBool b) = ''bool''"
| "py_type (PInt n) = ''int''"
| "py_type (PFloat f) = ''float''"
| "py_type (PStr s) = ''str''"
| "py_type (PList xs) = ''list''"
| "py_type (PDict d) = ''dict''"

text \<open>\<open>x[k] = v\<close> with a string key: only a dict accepts it.\<close>

fun setitem :: "pyval \<Rightarrow> string \<Rightarrow> pyval \<Rightarrow> exn + pyval dict" where
  "setitem (PDict d) k v = Inr (dict_set d k v)"
| "setitem x k v = Inl TypeError"

section \<open>Log records\<close>

text \<open>A log record is its level and its message; a message is kept as the format it
  comes from with the arguments it is given.\<close>

datatype level = DEBUG | INFO | ERROR

datatype message =
    MqttHostIs string
  | MqttTopicIs string
  | MqttClientIs string
  | PollingIntervalIs pyfloat
  | LabelMapIs "string dict"
  | SubscribedTo string
  | FailedToConnect int
  | AddedToQueue nat bytes
  | QueueOfEntries nat
  | WaitingForNonEmptyQueue
  | WorkingOnQueue nat string
  | FailedLoadingJSON string string string
  | KeyValueType string pyval string
  | CannotReadValue string string
  | SleepingFor int

type_synonym logrec = "level \<times> message"

section \<open>The driver\<close>

text \<open>
  Modelled from the spec: the constant \<open>weewx.METRIC\<close> belongs to the weewx package,
  which is not part of this repository; the spec calls it the fixed metric unit-system
  tag.  weewx gives it the value \<open>0x10\<close>.
\<close>

definition METRIC :: int where
  "METRIC = 16"

text \<open>\<open>_get_as_float(d, s)\<close>.  An exception other than \<open>ValueError\<close> reaches the
  clause \<open>except e:\<close>, whose expression \<open>e\<close> is an unbound name.\<close>

definition get_as_float :: "builtins \<Rightarrow> pyval dict \<Rightarrow> string \<Rightarrow> logrec list \<times> (exn + pyval)" where
  "get_as_float env d s =
     (case map_of d s of
        None \<Rightarrow> ([], Inr PNone)
      | Some x \<Rightarrow>
          (case py_float env x of
             Inr f \<Rightarrow> ([], Inr (PFloat f))
           | Inl ValueError \<Rightarrow> ([(ERROR, CannotReadValue s (py_type x))], Inr PNone)
           | Inl other \<Rightarrow> ([], Inl NameError)))"

text \<open>The fields of the driver object.  The MQTT client is the transport and is not
  modelled; \<open>payloadQueue\<close> is the \<open>queue.Queue\<close>, oldest payload first.\<close>

record wxMesh =
  host :: string
  topic :: string
  username :: string
  password :: string
  client_id :: string
  poll_interval :: pyfloat
  label_map :: "string dict"
  payloadQueue :: "string list"
  connected :: bool

text \<open>The keyword arguments of the constructor: each option is absent or given.\<close>

record stn_dict =
  opt_host :: "string option"
  opt_topic :: "string option"
  opt_username :: "string option"
  opt_password :: "string option"
  opt_client :: "string option"
  opt_poll_interval :: "pyval option"
  opt_label_map :: "string dict option"

definition get_opt :: "'a option \<Rightarrow> 'a \<Rightarrow> 'a" where
  "get_opt x dflt = (case x of None \<Rightarrow> dflt | Some v \<Rightarrow> v)"

text \<open>\<open>wxMesh.__init__\<close>, up to the creation of the queue.  \<open>float\<close> may raise on the
  poll interval that was supplied, and then no object is built.\<close>

definition init :: "builtins \<Rightarrow> stn_dict \<Rightarrow> logrec list \<times> (exn + wxMesh)" where
  "init env cfg =
     (case py_float env (get_opt (opt_poll_interval cfg) (PFloat (Finite 5))) of
        Inl e \<Rightarrow> ([], Inl e)
      | Inr p \<Rightarrow>
          (let self = \<lparr> host = get_opt (opt_host cfg) ''localhost'',
                        topic = get_opt (opt_topic cfg) ''weather'',
                        username = get_opt (opt_username cfg) ''no default'',
                        password = get_opt (opt_password cfg) ''no default'',
                        client_id = get_opt (opt_client cfg) ''wxclient'',
                        poll_interval = p,
                        label_map = get_opt (opt_label_map cfg) [],
                        payloadQueue = [],
                        connected = False \<rparr>
           in ([(INFO, MqttHostIs (host self)),
                (INFO, MqttTopicIs (topic self)),
                (INFO, MqttClientIs (client_id self)),
                (INFO, PollingIntervalIs (poll_interval self)),
                (INFO, LabelMapIs (label_map self))], Inr self)))"

text \<open>\<open>on_connect\<close>: the subscription request goes to the transport; the object only
  records that it is connected.  A refused connection is logged and nothing else is
  done.\<close>

definition on_connect :: "wxMesh \<Rightarrow> int \<Rightarrow> logrec list \<times> wxMesh" where
  "on_connect self rc =
     (if rc = 0 then ([(DEBUG, SubscribedTo (topic self))], self\<lparr>connected := True\<rparr>)
      else ([(ERROR, FailedToConnect rc)], self))"

text \<open>\<open>on_message\<close>: the payload is decoded to text and put at the tail of the queue.\<close>

definition on_message :: "builtins \<Rightarrow> wxMesh \<Rightarrow> bytes \<Rightarrow> logrec list \<times> (exn + wxMesh)" where
  "on_message env self payload =
     (case utf8_decode env payload of
        None \<Rightarrow> ([], Inl UnicodeDecodeError)
      | Some text \<Rightarrow>
          (let q = payloadQueue self @ [text]
           in ([(DEBUG, AddedToQueue (length q) payload)], Inr (self\<lparr>payloadQueue := q\<rparr>))))"

subsection \<open>The generator\<close>

text \<open>The loop \<open>for vname in data\<close> that fills the packet: \<open>ks\<close> are the keys still to
  visit.  An exception leaving \<open>_get_as_float\<close> leaves the loop.\<close>

fun map_fields ::
  "builtins \<Rightarrow> string dict \<Rightarrow> pyval dict \<Rightarrow> string list \<Rightarrow> pyval dict \<Rightarrow> logrec list \<times> (exn + pyval dict)" where
  "map_fields env lm data [] pkt = ([], Inr pkt)"
| "map_fields env lm data (vname # ks) pkt =
     (if dict_has lm vname then
        (case get_as_float env data vname of
           (l, Inl e) \<Rightarrow> (l, Inl e)
         | (l, Inr v) \<Rightarrow>
             (case map_fields env lm data ks (dict_set pkt (dict_get lm vname vname) v) of
                (l', r) \<Rightarrow> (l @ l', r)))
      else map_fields env lm data ks pkt)"

text \<open>
  The body of the inner loop for one payload \<open>msg\<close> taken from the queue, where \<open>qsize\<close>
  is the size of the queue after the \<open>get\<close> and \<open>now\<close> is \<open>int(time.time())\<close>.  The result
  is \<open>Inr None\<close> after \<open>continue\<close>, \<open>Inr (Some packet)\<close> at the \<open>yield\<close>, and \<open>Inl e\<close>
  when the exception \<open>e\<close> leaves the generator.
\<close>

definition loop_body ::
  "builtins \<Rightarrow> string dict \<Rightarrow> nat \<Rightarrow> int \<Rightarrow> string \<Rightarrow> logrec list \<times> (exn + pyval dict option)" where
  "loop_body env lm qsize now msg =
     (case json_loads env msg of
        Inl r \<Rightarrow>
          ([(DEBUG, WorkingOnQueue qsize msg), (ERROR, FailedLoadingJSON ''str'' msg r)], Inr None)
      | Inr loaded \<Rightarrow>
          (case setitem loaded ''TIME'' (PInt now) of
             Inl e \<Rightarrow> ([(DEBUG, WorkingOnQueue qsize msg)], Inl e)
           | Inr data \<Rightarrow>
               (let dbg = (DEBUG, WorkingOnQueue qsize msg)
                            # map (\<lambda>(key, v). (DEBUG, KeyValueType key v (py_type v))) data
                in (case map_fields env lm data (map fst data) [(''usUnits'', PInt METRIC)] of
                      (l, Inl e) \<Rightarrow> (dbg @ l, Inl e)
                    | (l, Inr packet) \<Rightarrow> (dbg @ l, Inr (Some packet))))))"

text \<open>What the driver does, in order: the generator takes a payload from the queue,
  something is logged, the generator yields a packet, sleeps, or raises.\<close>

datatype event = Get string | Log logrec | Yield "pyval dict" | Sleep pyfloat | Raise exn

text \<open>
  The inner loop \<open>while not self.payloadQueue.empty()\<close> on the queue \<open>q\<close>, with \<open>n\<close>
  the number of clock readings so far.  It returns the events, the number of clock
  readings, the payloads left in the queue, and the exception that ended the generator,
  if one did.  The clock is read once for each payload that was decoded.
\<close>

fun inner_loop ::
  "builtins \<Rightarrow> string dict \<Rightarrow> nat \<Rightarrow> string list \<Rightarrow> event list \<times> nat \<times> string list \<times> exn option" where
  "inner_loop env lm n [] = ([], n, [], None)"
| "inner_loop env lm n (msg # q) =
     (case loop_body env lm (length q) (clock env n) msg of
        (l, Inl e) \<Rightarrow> (Get msg # map Log l @ [Raise e], Suc n, q, Some e)
      | (l, Inr None) \<Rightarrow>
          (case inner_loop env lm n q of
             (evs, r) \<Rightarrow> (Get msg # map Log l @ evs, r))
      | (l, Inr (Some packet)) \<Rightarrow>
          (case inner_loop env lm (Suc n) q of
             (evs, r) \<Rightarrow> (Get msg # map Log l @ [Yield packet] @ evs, r)))"

text \<open>
  The format \<open>"%d" % x\<close> on a float: the float is truncated to an integer, which an
  infinity or a NaN does not have.
\<close>

fun format_d :: "pyfloat \<Rightarrow> exn + int" where
  "format_d (Finite r) = Inr (if 0 \<le> r then \<lfloor>r\<rfloor> else - \<lfloor>- r\<rfloor>)"
| "format_d NaN = Inl ValueError"
| "format_d PosInf = Inl OverflowError"
| "format_d NegInf = Inl OverflowError"

text \<open>
  \<open>time.sleep(x)\<close>: a NaN is refused, then a time beyond the platform's range, then a
  negative time; \<open>None\<close> means that it slept and returned.
\<close>

fun time_sleep :: "builtins \<Rightarrow> pyfloat \<Rightarrow> exn option" where
  "time_sleep env (Finite r) =
     (if sleep_max env < \<bar>r\<bar> then Some OverflowError
      else if r < 0 then Some ValueError
      else None)"
| "time_sleep env NaN = Some ValueError"
| "time_sleep env PosInf = Some OverflowError"
| "time_sleep env NegInf = Some OverflowError"

text \<open>
  One turn of the outer loop \<open>while True\<close> of \<open>genLoopPackets\<close>.  After the inner loop the
  message \<open>"Sleeping for %d" % self.poll_interval\<close> is built and logged, and then
  \<open>time.sleep(self.poll_interval)\<close> is called; an exception raised by either leaves the
  generator.
\<close>

definition cycle ::
  "builtins \<Rightarrow> wxMesh \<Rightarrow> nat \<Rightarrow> event list \<times> wxMesh \<times> nat \<times> exn option" where
  "cycle env self n =
     (case inner_loop env (label_map self) n (payloadQueue self) of
        (evs, n', q', stopped) \<Rightarrow>
          (let drained = [Log (DEBUG, QueueOfEntries (length (payloadQueue self))),
                          Log (DEBUG, WaitingForNonEmptyQueue)] @ evs;
               self' = self\<lparr>payloadQueue := q'\<rparr>
           in (case stopped of
                 Some e \<Rightarrow> (drained, self', n', Some e)
               | None \<Rightarrow>
                   (case format_d (poll_interval self) of
                      Inl e \<Rightarrow> (drained @ [Raise e], self', n', Some e)
                    | Inr secs \<Rightarrow>
                        (case time_sleep env (poll_interval self) of
                           Some e \<Rightarrow>
                             (drained @ [Log (DEBUG, SleepingFor secs), Raise e], self', n', Some e)
                         | None \<Rightarrow>
                             (drained @ [Log (DEBUG, SleepingFor secs), Sleep (poll_interval self)],
                              self', n', None))))))"

text \<open>
  The driver at work: the transport delivers a message (\<open>Message\<close>), or the consumer
  drives the generator through one turn of its outer loop (\<open>Cycle\<close>).  A generator that
  an exception has left is finished and does nothing more.  An exception in
  \<open>on_message\<close> is raised in the transport's thread and leaves the driver as it was.
  A message that arrives while the inner loop runs is taken in the same turn, as a
  message delivered before the turn is; only the queue sizes in the debug records differ.
\<close>

datatype action = Message bytes | Cycle

fun step ::
  "builtins \<Rightarrow> wxMesh \<times> nat \<times> exn option \<Rightarrow> action \<Rightarrow> event list \<times> wxMesh \<times> nat \<times> exn option" where
  "step env (self, n, stopped) (Message payload) =
     (case on_message env self payload of
        (l, Inl e) \<Rightarrow> (map Log l, self, n, stopped)
      | (l, Inr self') \<Rightarrow> (map Log l, self', n, stopped))"
| "step env (self, n, Some e) Cycle = ([], self, n, Some e)"
| "step env (self, n, None) Cycle = cycle env self n"

fun run ::
  "builtins \<Rightarrow> wxMesh \<times> nat \<times> exn option \<Rightarrow> action list \<Rightarrow> event list \<times> wxMesh \<times> nat \<times> exn option" where
  "run env s [] = ([], s)"
| "run env s (a # as) =
     (case step env s a of
        (evs, s') \<Rightarrow> (case run env s' as of (evs', s'') \<Rightarrow> (evs @ evs', s'')))"

section \<open>Reading a run\<close>


fun yielded :: "event list \<Rightarrow> pyval dict list" where
  "yielded [] = []"
| "yielded (Yield packet # evs) = packet # yielded evs"
| "yielded (e # evs) = yielded evs"


section \<open>Example inputs\<close>

text \<open>
  A decoder, a string-to-float conversion, a byte decoder and a clock that agree with the
  library on the payloads and numbers used in the examples below, a station with the
  label map of the examples, and two configurations.
\<close>

definition example_loads :: "string \<Rightarrow> string + pyval" where
  \<open>example_loads s =
     (if s = ''{"temp":"21.5","humi":"55","extra":"x"}'' then
        Inr (PDict [(''temp'', PStr ''21.5''), (''humi'', PStr ''55''), (''extra'', PStr ''x'')])
      else if s = ''{"temp":"not-a-number"}'' then Inr (PDict [(''temp'', PStr ''not-a-number'')])
      else if s = ''{"temp":null}'' then Inr (PDict [(''temp'', PNone)])
      else if s = ''{"temp":"1"}'' then Inr (PDict [(''temp'', PStr ''1'')])
      else if s = ''{"TIME":"12"}'' then Inr (PDict [(''TIME'', PStr ''12'')])
      else if s = ''{}'' then Inr (PDict [])
      else if s = ''[1,2]'' then Inr (PList [PInt 1, PInt 2])
      else Inl ''JSONDecodeError'')\<close>

definition example_float_of_str :: "string \<Rightarrow> pyfloat option" where
  "example_float_of_str s =
     (if s = ''21.5'' then Some (Finite (43 / 2))
      else if s = ''55'' then Some (Finite 55)
      else if s = ''1'' then Some (Finite 1)
      else if s = ''12'' then Some (Finite 12)
      else if s = ''-1'' then Some (Finite (- 1))
      else None)"

definition example_decode :: "bytes \<Rightarrow> string option" where
  "example_decode b =
     (if b = [123, 125] then Some ''{}''
      else if b = [91, 49, 44, 50, 93] then Some ''[1,2]''
      else if b = [123] then Some ''{''
      else None)"

definition example_env :: builtins where
  "example_env =
     \<lparr> json_loads = example_loads,
       float_of_str = example_float_of_str,
       float_of_int = (\<lambda>n. None),
       utf8_decode = example_decode,
       clock = (\<lambda>n. 1700000000 + int n),
       sleep_max = 9223372036 \<rparr>"

definition example_station :: wxMesh where
  "example_station =
     \<lparr> host = ''localhost'', topic = ''weather'', username = ''no default'',
       password = ''no default'', client_id = ''wxclient'', poll_interval = Finite 5,
       label_map = [(''temp'', ''outTemp''), (''humi'', ''outHumidity'')],
       payloadQueue = [], connected = False \<rparr>"

definition example_no_options :: stn_dict where
  "example_no_options =
     \<lparr> opt_host = None, opt_topic = None, opt_username = None, opt_password = None,
       opt_client = None, opt_poll_interval = None, opt_label_map = None \<rparr>"

definition example_negative_interval :: stn_dict where
  "example_negative_interval = example_no_options\<lparr>opt_poll_interval := Some (PStr ''-1'')\<rparr>"

definition example_label_map :: "string dict" where
  "example_label_map = [(''temp'', ''outTemp''), (''humi'', ''outHumidity'')]"

section \<open>Auxiliary facts\<close>



lemma yielded_append: "yielded (xs @ ys) = yielded xs @ yielded ys"
  by (induction xs rule: yielded.induct) simp_all

lemma yielded_Log: "yielded (map Log l) = []"
  by (induction l) simp_all





lemmas example_defs = example_env_def example_loads_def example_float_of_str_def example_decode_def

lemma step_stopped:
  "\<exists>e1 self1. step env (self, n, Some e) a = (e1, self1, n, Some e) \<and> yielded e1 = []"
proof (cases a)
  case (Message payload)
  obtain l r where om: "on_message env self payload = (l, r)"
    by (cases "on_message env self payload")
  with Message show ?thesis
    by (cases r) (simp_all add: yielded_Log)
next
  case Cycle
  then show ?thesis by simp
qed

lemma run_stopped:
  "run env (self, n, Some e) acts = (evs, s') \<Longrightarrow> yielded evs = []"
proof (induction acts arbitrary: self evs)
  case Nil
  then show ?case by simp
next
  case (Cons a acts)
  obtain e1 self1 where s: "step env (self, n, Some e) a = (e1, self1, n, Some e)" and y: "yielded e1 = []"
    using step_stopped [of env self n e a] by blast
  obtain e2 where r: "run env (self1, n, Some e) acts = (e2, s')" and ev: "evs = e1 @ e2"
    using Cons.prems s by (auto split: prod.splits)
  from Cons.IH [OF r] y ev show ?case
    by (simp add: yielded_append)
qed

lemma run_stopped_yields: "yielded (fst (run env (self, n, Some e) acts)) = []"
  using run_stopped [of env self n e acts] by (cases "run env (self, n, Some e) acts") simp

lemmas driver_defs = loop_body_def get_as_float_def dict_has_def dict_get_def METRIC_def

lemma map_of_dict_set: "map_of (dict_set d k v) = (map_of d)(k \<mapsto> v)"
  by (induction d) (auto simp: fun_eq_iff)

lemma keys_dict_set: "fst ` set (dict_set d k v) = insert k (fst ` set d)"
  by (induction d) auto

lemma dict_set_twice: "dict_set (dict_set d k x) k v = dict_set d k v"
  by (induction d) auto

lemma map_fields_no_map: "map_fields env [] data ks pkt = ([], Inr pkt)"
  by (induction ks) (simp_all add: dict_has_def)

lemma map_fields_succeeds:
  "(\<forall>k \<in> set ks. dict_has lm k \<longrightarrow> (\<exists>l v. get_as_float env data k = (l, Inr v))) \<Longrightarrow>
   \<exists>l pkt'. map_fields env lm data ks pkt = (l, Inr pkt')"
proof (induction ks arbitrary: pkt)
  case Nil
  show ?case by simp
next
  case (Cons vname ks)
  show ?case
  proof (cases "dict_has lm vname")
    case True
    with Cons.prems obtain l v where g: "get_as_float env data vname = (l, Inr v)"
      by auto
    from Cons.prems have "\<forall>k \<in> set ks. dict_has lm k \<longrightarrow> (\<exists>l v. get_as_float env data k = (l, Inr v))"
      by simp
    from Cons.IH [OF this, of "dict_set pkt (dict_get lm vname vname) v"]
    obtain l' pkt' where "map_fields env lm data ks (dict_set pkt (dict_get lm vname vname) v) = (l', Inr pkt')"
      by blast
    with True g show ?thesis by simp
  next
    case False
    from Cons.prems have "\<forall>k \<in> set ks. dict_has lm k \<longrightarrow> (\<exists>l v. get_as_float env data k = (l, Inr v))"
      by simp
    from Cons.IH [OF this, of pkt] False show ?thesis by simp
  qed
qed

lemma map_fields_keys:
  "map_fields env lm data ks pkt = (l, Inr pkt') \<Longrightarrow>
   fst ` set pkt' = fst ` set pkt \<union> {t. \<exists>k \<in> set ks. map_of lm k = Some t}"
proof (induction ks arbitrary: pkt l)
  case Nil
  then show ?case by simp
next
  case (Cons vname ks)
  show ?case
  proof (cases "map_of lm vname")
    case None
    with Cons.prems have "map_fields env lm data ks pkt = (l, Inr pkt')"
      by (simp add: dict_has_def)
    from Cons.IH [OF this] None show ?thesis by auto
  next
    case (Some t)
    with Cons.prems obtain l0 v l1 where
      r: "map_fields env lm data ks (dict_set pkt t v) = (l1, Inr pkt')"
      by (auto simp: dict_has_def dict_get_def split: prod.splits sum.splits)
    from Cons.IH [OF r] Some show ?thesis
      by (auto simp: keys_dict_set)
  qed
qed

lemma map_fields_untouched:
  "map_fields env lm data ks pkt = (l, Inr pkt') \<Longrightarrow>
   \<forall>k \<in> set ks. map_of lm k \<noteq> Some t \<Longrightarrow>
   map_of pkt' t = map_of pkt t"
proof (induction ks arbitrary: pkt l)
  case Nil
  then show ?case by simp
next
  case (Cons vname ks)
  from Cons.prems(2) have rest: "\<forall>k \<in> set ks. map_of lm k \<noteq> Some t" and here: "map_of lm vname \<noteq> Some t"
    by simp_all
  show ?case
  proof (cases "map_of lm vname")
    case None
    with Cons.prems have "map_fields env lm data ks pkt = (l, Inr pkt')"
      by (simp add: dict_has_def)
    from Cons.IH [OF this rest] show ?thesis .
  next
    case (Some u)
    with Cons.prems obtain v l1 where
      r: "map_fields env lm data ks (dict_set pkt u v) = (l1, Inr pkt')"
      by (auto simp: dict_has_def dict_get_def split: prod.splits sum.splits)
    from here Some have "u \<noteq> t" by simp
    with Cons.IH [OF r rest] show ?thesis
      by (simp add: map_of_dict_set)
  qed
qed

lemma map_fields_value:
  "map_fields env lm data ks pkt = (l, Inr pkt') \<Longrightarrow>
   k \<in> set ks \<Longrightarrow> map_of lm k = Some t \<Longrightarrow>
   \<forall>k' \<in> set ks. k' \<noteq> k \<longrightarrow> map_of lm k' \<noteq> Some t \<Longrightarrow>
   \<exists>l0 v. get_as_float env data k = (l0, Inr v) \<and> map_of pkt' t = Some v \<and> set l0 \<subseteq> set l"
proof (induction ks arbitrary: pkt l)
  case Nil
  then show ?case by simp
next
  case (Cons vname ks)
  from Cons.prems(4) have rest: "\<forall>k' \<in> set ks. k' \<noteq> k \<longrightarrow> map_of lm k' \<noteq> Some t"
    by simp
  show ?case
  proof (cases "vname = k")
    case True
    with Cons.prems(1,3) obtain l0 v l1 where
      g: "get_as_float env data k = (l0, Inr v)" and
      r: "map_fields env lm data ks (dict_set pkt t v) = (l1, Inr pkt')" and
      l: "l = l0 @ l1"
      by (auto simp: dict_has_def dict_get_def split: prod.splits sum.splits)
    show ?thesis
    proof (cases "k \<in> set ks")
      case True
      from Cons.IH [OF r True Cons.prems(3) rest] g l show ?thesis
        by auto
    next
      case False
      with rest have "\<forall>k' \<in> set ks. map_of lm k' \<noteq> Some t"
        by auto
      from map_fields_untouched [OF r this] g l show ?thesis
        by (simp add: map_of_dict_set)
    qed
  next
    case False
    with Cons.prems(2) have k: "k \<in> set ks" by simp
    show ?thesis
    proof (cases "map_of lm vname")
      case None
      with Cons.prems(1) have "map_fields env lm data ks pkt = (l, Inr pkt')"
        by (simp add: dict_has_def)
      from Cons.IH [OF this k Cons.prems(3) rest] show ?thesis .
    next
      case (Some u)
      with Cons.prems(1) obtain l0 v l1 where
        r: "map_fields env lm data ks (dict_set pkt u v) = (l1, Inr pkt')" and
        l: "l = l0 @ l1"
        by (auto simp: dict_has_def dict_get_def split: prod.splits sum.splits)
      from Cons.IH [OF r k Cons.prems(3) rest] l show ?thesis
        by auto
    qed
  qed
qed


lemma get_as_float_ok:
  "(\<exists>f. py_float env x = Inr f) \<or> py_float env x = Inl ValueError \<Longrightarrow>
   map_of data k = Some x \<Longrightarrow> \<exists>l v. get_as_float env data k = (l, Inr v)"
  by (auto simp: get_as_float_def)

lemma loop_body_dict:
  "json_loads env msg = Inr (PDict d) \<Longrightarrow>
   map_fields env lm (dict_set d ''TIME'' (PInt now)) (map fst (dict_set d ''TIME'' (PInt now)))
     [(''usUnits'', PInt METRIC)] = (l, r) \<Longrightarrow>
   \<exists>dbg. loop_body env lm qsize now msg
     = (dbg @ l, (case r of Inl e \<Rightarrow> Inl e | Inr packet \<Rightarrow> Inr (Some packet)))"
  by (cases r) (simp_all add: loop_body_def Let_def)

lemma loop_body_yield:
  "loop_body env lm qsize now msg = (l, Inr (Some packet)) \<Longrightarrow>
   \<exists>d l'. json_loads env msg = Inr (PDict d)
     \<and> map_fields env lm (dict_set d ''TIME'' (PInt now)) (map fst (dict_set d ''TIME'' (PInt now)))
          [(''usUnits'', PInt METRIC)] = (l', Inr packet)"
proof -
  assume a: "loop_body env lm qsize now msg = (l, Inr (Some packet))"
  then obtain loaded where j: "json_loads env msg = Inr loaded"
    by (cases "json_loads env msg") (auto simp: loop_body_def)
  with a obtain d where d: "loaded = PDict d"
    by (cases loaded) (auto simp: loop_body_def)
  obtain l' r where m: "map_fields env lm (dict_set d ''TIME'' (PInt now))
      (map fst (dict_set d ''TIME'' (PInt now))) [(''usUnits'', PInt METRIC)] = (l', r)"
    by (cases "map_fields env lm (dict_set d ''TIME'' (PInt now))
      (map fst (dict_set d ''TIME'' (PInt now))) [(''usUnits'', PInt METRIC)]")
  from loop_body_dict [OF j [unfolded d] m, of qsize] a have "r = Inr packet"
    by (cases r) auto
  with j d m show ?thesis by blast
qed

lemma keys_with_TIME:
  "set (map fst (dict_set d ''TIME'' v)) = insert ''TIME'' (fst ` set d)"
  using keys_dict_set [of d "''TIME''" v] by simp



lemma keys_dict_set_same: "map fst (dict_set d k v) = map fst (dict_set d k v')"
  by (induction d) auto

lemma get_as_float_cong:
  "map_of data k = map_of data' k \<Longrightarrow> get_as_float env data k = get_as_float env data' k"
  by (simp add: get_as_float_def)

lemma map_fields_cong:
  "\<forall>k \<in> set ks. dict_has lm k \<longrightarrow> map_of data k = map_of data' k \<Longrightarrow>
   map_fields env lm data ks pkt = map_fields env lm data' ks pkt"
proof (induction ks arbitrary: pkt)
  case Nil
  show ?case by simp
next
  case (Cons vname ks)
  from Cons.prems have rest: "\<forall>k \<in> set ks. dict_has lm k \<longrightarrow> map_of data k = map_of data' k"
    by simp
  show ?case
  proof (cases "dict_has lm vname")
    case True
    with Cons.prems have "map_of data vname = map_of data' vname"
      by simp
    then have "get_as_float env data vname = get_as_float env data' vname"
      by (rule get_as_float_cong)
    with True Cons.IH [OF rest] show ?thesis by simp
  next
    case False
    with Cons.IH [OF rest] show ?thesis by simp
  qed
qed

section \<open>The payload queue\<close>



section \<open>Payloads that are not JSON objects\<close>

text \<open>
  C9. A payload that \<open>json.loads\<close> decodes to a value that is not a dict (a list, a
  number, a string, a boolean, \<open>None\<close>) makes \<open>data['TIME'] = ...\<close> raise
  \<open>TypeError\<close> outside the \<open>try\<close>: the exception leaves the generator, the inner loop
  stops with the rest of the queue untouched, and the generator yields nothing ever
  after.
\<close>

theorem non_object_payload_ends_generator:
  assumes "json_loads env msg = Inr loaded" and "\<forall>d. loaded \<noteq> PDict d"
  shows "loop_body env lm (length q) (clock env n) msg
           = ([(DEBUG, WorkingOnQueue (length q) msg)], Inl TypeError)
       \<and> inner_loop env lm n (msg # q)
           = ([Get msg, Log (DEBUG, WorkingOnQueue (length q) msg), Raise TypeError],
              Suc n, q, Some TypeError)
       \<and> yielded (fst (run env (self, Suc n, Some TypeError) acts)) = []"
proof -
  from assms(2) have "setitem loaded ''TIME'' (PInt (clock env n)) = Inl TypeError"
    by (cases loaded) simp_all
  with assms(1) have lb: "loop_body env lm (length q) (clock env n) msg
           = ([(DEBUG, WorkingOnQueue (length q) msg)], Inl TypeError)"
    by (simp add: loop_body_def)
  then show ?thesis
    by (simp add: run_stopped_yields)
qed

theorem non_object_payload_ends_generator_witness:
  \<open>json_loads example_env ''[1,2]'' = Inr (PList [PInt 1, PInt 2])
   \<and> (\<forall>d. PList [PInt 1, PInt 2] \<noteq> PDict d)
   \<and> inner_loop example_env [(''temp'', ''outTemp'')] 0 [''[1,2]'', ''{}'']
       = ([Get ''[1,2]'', Log (DEBUG, WorkingOnQueue 1 ''[1,2]''), Raise TypeError],
          1, [''{}''], Some TypeError)\<close>
proof -
  have a: \<open>json_loads example_env ''[1,2]'' = Inr (PList [PInt 1, PInt 2])\<close>
    by (simp add: example_defs)
  have b: "\<forall>d. PList [PInt 1, PInt 2] \<noteq> PDict d"
    by simp
  from non_object_payload_ends_generator [OF a b, of "[(''temp'', ''outTemp'')]" "[''{}'']" 0]
  show ?thesis using a b by simp
qed

text \<open>
  C5. A payload that \<open>json.loads\<close> rejects is taken from the queue, an error holding the
  payload's text and the exception is logged, nothing is yielded for it, and the loop
  goes on with the next payload of the queue.
\<close>

theorem undecodable_payload_skipped:
  assumes "json_loads env msg = Inl r"
  shows "inner_loop env lm n (msg # q)
           = (Get msg # Log (DEBUG, WorkingOnQueue (length q) msg)
                # Log (ERROR, FailedLoadingJSON ''str'' msg r)
                # fst (inner_loop env lm n q),
              snd (inner_loop env lm n q))"
  using assms by (simp add: loop_body_def split: prod.splits)

theorem undecodable_payload_skipped_witness:
  \<open>json_loads example_env ''{"temp'' = Inl ''JSONDecodeError''
   \<and> inner_loop example_env [] 0 [''{"temp'', ''{}'']
       = ([Get ''{"temp'', Log (DEBUG, WorkingOnQueue 1 ''{"temp''),
           Log (ERROR, FailedLoadingJSON ''str'' ''{"temp'' ''JSONDecodeError''),
           Get ''{}'', Log (DEBUG, WorkingOnQueue 0 ''{}''),
           Log (DEBUG, KeyValueType ''TIME'' (PInt 1700000000) ''int''),
           Yield [(''usUnits'', PInt 16)]],
          1, [], None)\<close>
proof -
  have a: \<open>json_loads example_env ''{"temp'' = Inl ''JSONDecodeError''\<close>
    by (simp add: example_defs)
  have b: \<open>inner_loop example_env [] 0 [''{}'']
       = ([Get ''{}'', Log (DEBUG, WorkingOnQueue 0 ''{}''),
           Log (DEBUG, KeyValueType ''TIME'' (PInt 1700000000) ''int''),
           Yield [(''usUnits'', PInt 16)]],
          1, [], None)\<close>
    by (simp add: example_defs driver_defs)
  from undecodable_payload_skipped [OF a, of "[]" 0 "[''{}'']"] b
  show ?thesis using a by simp
qed

section \<open>The idle cycle\<close>

text \<open>
  C8, as the driver has it.  When the queue is empty at the start of a turn of the outer
  loop and the poll interval is a finite, non-negative time that \<open>time.sleep\<close> accepts,
  the inner loop ends at once with nothing taken, nothing is yielded in the turn, the
  generator sleeps for the poll interval, and the next turn begins from the same state.
\<close>

theorem idle_cycle:
  assumes "payloadQueue self = []"
      and "poll_interval self = Finite r" and "0 \<le> r" and "r \<le> sleep_max env"
  shows "inner_loop env (label_map self) n (payloadQueue self) = ([], n, [], None)
       \<and> cycle env self n
           = ([Log (DEBUG, QueueOfEntries 0), Log (DEBUG, WaitingForNonEmptyQueue),
               Log (DEBUG, SleepingFor \<lfloor>r\<rfloor>), Sleep (Finite r)],
              self, n, None)
       \<and> run env (self, n, None) (Cycle # acts)
           = ([Log (DEBUG, QueueOfEntries 0), Log (DEBUG, WaitingForNonEmptyQueue),
               Log (DEBUG, SleepingFor \<lfloor>r\<rfloor>), Sleep (Finite r)]
              @ fst (run env (self, n, None) acts),
              snd (run env (self, n, None) acts))"
proof -
  from assms(1) have "self\<lparr>payloadQueue := []\<rparr> = self"
    by simp
  with assms have c: "cycle env self n
           = ([Log (DEBUG, QueueOfEntries 0), Log (DEBUG, WaitingForNonEmptyQueue),
               Log (DEBUG, SleepingFor \<lfloor>r\<rfloor>), Sleep (Finite r)],
              self, n, None)"
    by (simp add: cycle_def)
  with assms(1) show ?thesis
    by (simp split: prod.splits)
qed

theorem idle_cycle_witness:
  "payloadQueue example_station = []
   \<and> poll_interval example_station = Finite 5
   \<and> (0::rat) \<le> 5 \<and> 5 \<le> sleep_max example_env
   \<and> run example_env (example_station, 0, None) [Cycle, Cycle]
       = ([Log (DEBUG, QueueOfEntries 0), Log (DEBUG, WaitingForNonEmptyQueue),
           Log (DEBUG, SleepingFor 5), Sleep (Finite 5),
           Log (DEBUG, QueueOfEntries 0), Log (DEBUG, WaitingForNonEmptyQueue),
           Log (DEBUG, SleepingFor 5), Sleep (Finite 5)],
          example_station, 0, None)"
proof -
  have a: "payloadQueue example_station = []"
    by (simp add: example_station_def)
  have p: "poll_interval example_station = Finite 5"
    by (simp add: example_station_def)
  have z: "(0::rat) \<le> 5"
    by simp
  have m: "5 \<le> sleep_max example_env"
    by (simp add: example_defs)
  from idle_cycle [OF a p z m, of 0 "[Cycle]"] idle_cycle [OF a p z m, of 0 "[]"]
  show ?thesis using a p z m by simp
qed

text \<open>The configuration \<open>poll_interval = -1\<close> builds a station; its first idle turn logs,
  then \<open>time.sleep\<close> raises \<open>ValueError\<close> and the generator ends without sleeping.\<close>

theorem idle_cycle_negative_interval_counterexample:
  "snd (init example_env example_negative_interval)
     = Inr (example_station\<lparr>poll_interval := Finite (- 1), label_map := []\<rparr>)
   \<and> cycle example_env (example_station\<lparr>poll_interval := Finite (- 1), label_map := []\<rparr>) 0
     = ([Log (DEBUG, QueueOfEntries 0), Log (DEBUG, WaitingForNonEmptyQueue),
         Log (DEBUG, SleepingFor (- 1)), Raise ValueError],
        example_station\<lparr>poll_interval := Finite (- 1), label_map := []\<rparr>, 0, Some ValueError)"
  by (simp add: example_defs example_negative_interval_def example_no_options_def
        example_station_def init_def get_opt_def cycle_def)

section \<open>The field mapper\<close>

text \<open>
  C7, as the driver has it.  Every packet the generator yields has the key \<open>usUnits\<close>;
  its value is the metric tag whenever the label map sends no key to the name
  \<open>usUnits\<close>, and this does not depend on whether any field converts or is mapped.
  A label map with the target \<open>usUnits\<close> overwrites the tag.
\<close>

theorem units_tag_unless_remapped:
  assumes "loop_body env lm qsize now msg = (l, Inr (Some packet))"
  shows "''usUnits'' \<in> fst ` set packet
       \<and> ((\<forall>k. map_of lm k \<noteq> Some ''usUnits'') \<longrightarrow>
            map_of packet ''usUnits'' = Some (PInt METRIC))"
proof -
  from loop_body_yield [OF assms] obtain d l' where
    m: "map_fields env lm (dict_set d ''TIME'' (PInt now)) (map fst (dict_set d ''TIME'' (PInt now)))
          [(''usUnits'', PInt METRIC)] = (l', Inr packet)"
    by blast
  from map_fields_keys [OF m] have "''usUnits'' \<in> fst ` set packet"
    by simp
  moreover have "map_of packet ''usUnits'' = Some (PInt METRIC)"
    if "\<forall>k. map_of lm k \<noteq> Some ''usUnits''"
    using map_fields_untouched [OF m, of "''usUnits''"] that by simp
  ultimately show ?thesis by blast
qed

theorem units_tag_unless_remapped_witness:
  \<open>loop_body example_env example_label_map 0 1700000000 ''{"temp":"not-a-number"}''
     = ([(DEBUG, WorkingOnQueue 0 ''{"temp":"not-a-number"}''),
         (DEBUG, KeyValueType ''temp'' (PStr ''not-a-number'') ''str''),
         (DEBUG, KeyValueType ''TIME'' (PInt 1700000000) ''int''),
         (ERROR, CannotReadValue ''temp'' ''str'')],
        Inr (Some [(''usUnits'', PInt METRIC), (''outTemp'', PNone)]))
   \<and> (\<forall>k. map_of example_label_map k \<noteq> Some ''usUnits'')
   \<and> map_of [(''usUnits'', PInt METRIC), (''outTemp'', PNone)] ''usUnits'' = Some (PInt METRIC)\<close>
proof -
  have a: \<open>loop_body example_env example_label_map 0 1700000000 ''{"temp":"not-a-number"}''
     = ([(DEBUG, WorkingOnQueue 0 ''{"temp":"not-a-number"}''),
         (DEBUG, KeyValueType ''temp'' (PStr ''not-a-number'') ''str''),
         (DEBUG, KeyValueType ''TIME'' (PInt 1700000000) ''int''),
         (ERROR, CannotReadValue ''temp'' ''str'')],
        Inr (Some [(''usUnits'', PInt METRIC), (''outTemp'', PNone)]))\<close>
    by (simp add: example_defs example_label_map_def loop_body_def get_as_float_def
          dict_has_def dict_get_def)
  have b: "\<forall>k. map_of example_label_map k \<noteq> Some ''usUnits''"
    by (simp add: example_label_map_def)
  from units_tag_unless_remapped [OF a] b
  have "map_of [(''usUnits'', PInt METRIC), (''outTemp'', PNone)] ''usUnits'' = Some (PInt METRIC)"
    by blast
  with a b show ?thesis by (intro conjI)
qed

text \<open>With the label map \<open>temp = usUnits\<close>, the payload \<open>{"temp":"1"}\<close> gives a packet
  whose \<open>usUnits\<close> is \<open>1.0\<close>, not the metric tag.\<close>

theorem units_tag_remapped_counterexample:
  \<open>yielded (fst (inner_loop example_env [(''temp'', ''usUnits'')] 0 [''{"temp":"1"}'']))
     = [[(''usUnits'', PFloat (Finite 1))]]\<close>
  by (simp add: example_defs driver_defs)

text \<open>
  C2, as the driver has it.  For a payload that decodes to a dict and for which a packet
  is yielded: the entry \<open>TIME\<close> of the decoded message is set to the local time before
  the fields are mapped, so the packet does not depend on a \<open>TIME\<close> value of the
  payload; when the label map has an entry for \<open>TIME\<close> and no other key of the payload
  is mapped to the same name, the packet carries the local time, as a float, under that
  name; and when the label map has no entry for \<open>TIME\<close>, the local time does not reach
  the packet, which is the same whatever the clock reads.
\<close>

theorem timestamp_follows_label_map:
  assumes "json_loads env msg = Inr (PDict d)"
      and "loop_body env lm qsize now msg = (l, Inr (Some packet))"
  shows "(\<forall>t. map_of lm ''TIME'' = Some t
             \<and> (\<forall>k \<in> fst ` set d. k \<noteq> ''TIME'' \<longrightarrow> map_of lm k \<noteq> Some t) \<longrightarrow>
             (\<exists>f. py_float env (PInt now) = Inr f \<and> map_of packet t = Some (PFloat f)))
       \<and> (\<forall>x msg'. json_loads env msg' = Inr (PDict (dict_set d ''TIME'' x)) \<longrightarrow>
             snd (loop_body env lm qsize now msg') = Inr (Some packet))
       \<and> (map_of lm ''TIME'' = None \<longrightarrow>
             (\<forall>now'. snd (loop_body env lm qsize now' msg) = Inr (Some packet)))"
proof -
  let ?data = "dict_set d ''TIME'' (PInt now)"
  from loop_body_yield [OF assms(2)] assms(1) obtain l' where
    m: "map_fields env lm ?data (map fst ?data) [(''usUnits'', PInt METRIC)] = (l', Inr packet)"
    by auto
  have time: "map_of ?data ''TIME'' = Some (PInt now)"
    by (simp add: map_of_dict_set)
  have "\<exists>f. py_float env (PInt now) = Inr f \<and> map_of packet t = Some (PFloat f)"
    if t: "map_of lm ''TIME'' = Some t"
      and o: "\<forall>k \<in> fst ` set d. k \<noteq> ''TIME'' \<longrightarrow> map_of lm k \<noteq> Some t" for t
  proof -
    have k: "''TIME'' \<in> set (map fst ?data)"
      by (simp only: keys_with_TIME) simp
    from o have o': "\<forall>k' \<in> set (map fst ?data). k' \<noteq> ''TIME'' \<longrightarrow> map_of lm k' \<noteq> Some t"
      by (simp only: keys_with_TIME) auto
    from map_fields_value [OF m k t o'] obtain l0 v where
      g: "get_as_float env ?data ''TIME'' = (l0, Inr v)" and p: "map_of packet t = Some v"
      by blast
    from g time have "\<exists>f. py_float env (PInt now) = Inr f \<and> v = PFloat f"
      by (auto simp: get_as_float_def split: sum.splits exn.splits option.splits if_splits)
    with p show ?thesis by auto
  qed
  moreover have "snd (loop_body env lm qsize now msg') = Inr (Some packet)"
    if "json_loads env msg' = Inr (PDict (dict_set d ''TIME'' x))" for x msg'
    using loop_body_dict [OF that, of lm now l' "Inr packet" qsize] m
    by (auto simp: dict_set_twice)
  moreover have "snd (loop_body env lm qsize now' msg) = Inr (Some packet)"
    if none: "map_of lm ''TIME'' = None" for now'
  proof -
    let ?data' = "dict_set d ''TIME'' (PInt now')"
    have ks: "map fst ?data' = map fst ?data"
      by (rule keys_dict_set_same)
    have same: "\<forall>k \<in> set (map fst ?data). dict_has lm k \<longrightarrow> map_of ?data' k = map_of ?data k"
    proof (intro ballI impI)
      fix k assume "dict_has lm k"
      with none have "k \<noteq> ''TIME''"
        by (auto simp: dict_has_def)
      then show "map_of ?data' k = map_of ?data k"
        by (simp add: map_of_dict_set)
    qed
    have "map_fields env lm ?data' (map fst ?data) [(''usUnits'', PInt METRIC)]
            = map_fields env lm ?data (map fst ?data) [(''usUnits'', PInt METRIC)]"
      by (rule map_fields_cong [OF same])
    with m have "map_fields env lm ?data' (map fst ?data) [(''usUnits'', PInt METRIC)]
            = (l', Inr packet)"
      by simp
    then have m': "map_fields env lm ?data' (map fst ?data') [(''usUnits'', PInt METRIC)]
            = (l', Inr packet)"
      by (simp only: ks)
    from loop_body_dict [OF assms(1) m', of qsize] show ?thesis
      by auto
  qed
  ultimately show ?thesis by blast
qed

theorem timestamp_follows_label_map_witness:
  \<open>json_loads example_env ''{}'' = Inr (PDict [])
   \<and> loop_body example_env [(''TIME'', ''dateTime'')] 0 1700000000 ''{}''
       = ([(DEBUG, WorkingOnQueue 0 ''{}''),
           (DEBUG, KeyValueType ''TIME'' (PInt 1700000000) ''int'')],
          Inr (Some [(''usUnits'', PInt METRIC), (''dateTime'', PFloat (Finite 1700000000))]))
   \<and> map_of [(''TIME'', ''dateTime'')] ''TIME'' = Some ''dateTime''
   \<and> json_loads example_env ''{"TIME":"12"}'' = Inr (PDict (dict_set [] ''TIME'' (PStr ''12'')))
   \<and> snd (loop_body example_env [(''TIME'', ''dateTime'')] 0 1700000000 ''{"TIME":"12"}'')
       = Inr (Some [(''usUnits'', PInt METRIC), (''dateTime'', PFloat (Finite 1700000000))])
   \<and> (\<exists>f. py_float example_env (PInt 1700000000) = Inr f
         \<and> map_of [(''usUnits'', PInt METRIC), (''dateTime'', PFloat (Finite 1700000000))] ''dateTime''
             = Some (PFloat f))\<close>
proof -
  have a: \<open>json_loads example_env ''{}'' = Inr (PDict [])\<close>
    by (simp add: example_defs)
  have b: \<open>loop_body example_env [(''TIME'', ''dateTime'')] 0 1700000000 ''{}''
       = ([(DEBUG, WorkingOnQueue 0 ''{}''),
           (DEBUG, KeyValueType ''TIME'' (PInt 1700000000) ''int'')],
          Inr (Some [(''usUnits'', PInt METRIC), (''dateTime'', PFloat (Finite 1700000000))]))\<close>
    by (simp add: example_defs loop_body_def get_as_float_def dict_has_def dict_get_def)
  have c: "map_of [(''TIME'', ''dateTime'')] ''TIME'' = Some ''dateTime''"
    by simp
  have d: \<open>json_loads example_env ''{"TIME":"12"}'' = Inr (PDict (dict_set [] ''TIME'' (PStr ''12'')))\<close>
    by (simp add: example_defs)
  from timestamp_follows_label_map [OF a b] d
  have \<open>snd (loop_body example_env [(''TIME'', ''dateTime'')] 0 1700000000 ''{"TIME":"12"}'')
       = Inr (Some [(''usUnits'', PInt METRIC), (''dateTime'', PFloat (Finite 1700000000))])\<close>
    by blast
  moreover from timestamp_follows_label_map [OF a b] c
  have "\<exists>f. py_float example_env (PInt 1700000000) = Inr f
         \<and> map_of [(''usUnits'', PInt METRIC), (''dateTime'', PFloat (Finite 1700000000))] ''dateTime''
             = Some (PFloat f)"
    by simp
  ultimately show ?thesis using a b c d by (intro conjI)
qed

text \<open>With a label map that has no entry for \<open>TIME\<close>, the packet holds the unit tag only:
  it has no timestamp, whatever the payload says.\<close>

theorem no_timestamp_counterexample:
  \<open>yielded (fst (inner_loop example_env example_label_map 0 [''{"TIME":"12"}'']))
     = [[(''usUnits'', PInt METRIC)]]\<close>
  by (simp add: example_defs example_label_map_def loop_body_def get_as_float_def
        dict_has_def dict_get_def)




text \<open>
  C4, as the driver has it.  For a payload that decodes to a dict whose mapped values
  all convert (the local time under \<open>TIME\<close> among them, when the label map maps
  \<open>TIME\<close>), exactly one packet is yielded; its keys are exactly \<open>usUnits\<close> and the
  targets of the mapped keys of the message, unmapped keys are dropped, and each target
  to which only one key of the message is mapped holds the float of that key's value.
  With the label map \<open>temp = outTemp, humi = outHumidity\<close> the payload of the example
  gives exactly one packet, with the unit tag, \<open>outTemp = 21.5\<close> and
  \<open>outHumidity = 55.0\<close> and nothing else.
\<close>

theorem mapped_fields_renamed:
  assumes "json_loads env msg = Inr (PDict d)"
      and "\<forall>k x. map_of (dict_set d ''TIME'' (PInt (clock env n))) k = Some x \<longrightarrow> dict_has lm k \<longrightarrow>
             (\<exists>f. py_float env x = Inr f)"
  shows \<open>(\<exists>packet. yielded (fst (inner_loop env lm n [msg])) = [packet]
           \<and> fst ` set packet
               = insert ''usUnits'' {t. \<exists>k. (k = ''TIME'' \<or> k \<in> fst ` set d) \<and> map_of lm k = Some t}
           \<and> (\<forall>k t x. map_of lm k = Some t
                 \<and> map_of (dict_set d ''TIME'' (PInt (clock env n))) k = Some x
                 \<and> (\<forall>k'. (k' = ''TIME'' \<or> k' \<in> fst ` set d) \<longrightarrow> k' \<noteq> k \<longrightarrow> map_of lm k' \<noteq> Some t) \<longrightarrow>
                 (\<exists>f. py_float env x = Inr f \<and> map_of packet t = Some (PFloat f))))
       \<and> yielded (fst (inner_loop example_env example_label_map 0
                         [''{"temp":"21.5","humi":"55","extra":"x"}'']))
           = [[(''usUnits'', PInt METRIC), (''outTemp'', PFloat (Finite (43 / 2))),
               (''outHumidity'', PFloat (Finite 55))]]\<close>
    (is "?general \<and> ?example")
proof -
  let ?data = "dict_set d ''TIME'' (PInt (clock env n))"
  have ok: "\<forall>k' \<in> set (map fst ?data). dict_has lm k' \<longrightarrow> (\<exists>l v. get_as_float env ?data k' = (l, Inr v))"
  proof (intro ballI impI)
    fix k' assume "k' \<in> set (map fst ?data)" and h: "dict_has lm k'"
    then obtain x where x: "map_of ?data k' = Some x"
      by (cases "map_of ?data k'") (auto simp: map_of_eq_None_iff)
    from assms(2) x h have "(\<exists>f. py_float env x = Inr f) \<or> py_float env x = Inl ValueError"
      by blast
    from get_as_float_ok [OF this x] show "\<exists>l v. get_as_float env ?data k' = (l, Inr v)" .
  qed
  from map_fields_succeeds [OF ok, of "[(''usUnits'', PInt METRIC)]"] obtain l' packet where
    m: "map_fields env lm ?data (map fst ?data) [(''usUnits'', PInt METRIC)] = (l', Inr packet)"
    by blast
  from loop_body_dict [OF assms(1) m, of 0] obtain dbg where
    lb: "loop_body env lm 0 (clock env n) msg = (dbg @ l', Inr (Some packet))"
    by auto
  then have y: "yielded (fst (inner_loop env lm n [msg])) = [packet]"
    by (simp add: yielded_append yielded_Log)
  have keys: "fst ` set packet
      = insert ''usUnits'' {t. \<exists>k. (k = ''TIME'' \<or> k \<in> fst ` set d) \<and> map_of lm k = Some t}"
    unfolding map_fields_keys [OF m] keys_with_TIME by auto
  have vals: "\<exists>f. py_float env x = Inr f \<and> map_of packet t = Some (PFloat f)"
    if t: "map_of lm k = Some t" and x: "map_of ?data k = Some x"
      and o: "\<forall>k'. (k' = ''TIME'' \<or> k' \<in> fst ` set d) \<longrightarrow> k' \<noteq> k \<longrightarrow> map_of lm k' \<noteq> Some t"
    for k t x
  proof -
    from x have kin: "k \<in> set (map fst ?data)"
      by (metis map_of_eq_None_iff option.distinct(1) set_map)
    from o have o': "\<forall>k' \<in> set (map fst ?data). k' \<noteq> k \<longrightarrow> map_of lm k' \<noteq> Some t"
      by (simp only: keys_with_TIME) auto
    from map_fields_value [OF m kin t o'] obtain l0 v where
      g: "get_as_float env ?data k = (l0, Inr v)" and p: "map_of packet t = Some v"
      by blast
    from t have "dict_has lm k" by (simp add: dict_has_def)
    with assms(2) x obtain f where f: "py_float env x = Inr f" by blast
    with x g have "v = PFloat f" by (simp add: get_as_float_def)
    with p f show ?thesis by simp
  qed
  have "\<forall>k t x. map_of lm k = Some t
                 \<and> map_of ?data k = Some x
                 \<and> (\<forall>k'. (k' = ''TIME'' \<or> k' \<in> fst ` set d) \<longrightarrow> k' \<noteq> k \<longrightarrow> map_of lm k' \<noteq> Some t) \<longrightarrow>
                 (\<exists>f. py_float env x = Inr f \<and> map_of packet t = Some (PFloat f))"
  proof (intro allI impI)
    fix k t x
    assume h: "map_of lm k = Some t
                 \<and> map_of ?data k = Some x
                 \<and> (\<forall>k'. (k' = ''TIME'' \<or> k' \<in> fst ` set d) \<longrightarrow> k' \<noteq> k \<longrightarrow> map_of lm k' \<noteq> Some t)"
    show "\<exists>f. py_float env x = Inr f \<and> map_of packet t = Some (PFloat f)"
      by (rule vals [OF conjunct1 [OF h] conjunct1 [OF conjunct2 [OF h]]
            conjunct2 [OF conjunct2 [OF h]]])
  qed
  with y keys have general: ?general
    by (intro exI [of _ packet] conjI)
  have example: ?example
    by (simp add: example_defs example_label_map_def loop_body_def get_as_float_def
          dict_has_def dict_get_def)
  from general example show ?thesis
    by (rule conjI)
qed

theorem mapped_fields_renamed_witness:
  \<open>json_loads example_env ''{"temp":"21.5","humi":"55","extra":"x"}''
     = Inr (PDict [(''temp'', PStr ''21.5''), (''humi'', PStr ''55''), (''extra'', PStr ''x'')])
   \<and> (\<exists>packet.
         yielded (fst (inner_loop example_env example_label_map 0
                         [''{"temp":"21.5","humi":"55","extra":"x"}''])) = [packet]
         \<and> fst ` set packet = {''usUnits'', ''outTemp'', ''outHumidity''}
         \<and> map_of packet ''outTemp'' = Some (PFloat (Finite (43 / 2)))
         \<and> map_of packet ''outHumidity'' = Some (PFloat (Finite 55)))\<close>
proof -
  let ?d = "[(''temp'', PStr ''21.5''), (''humi'', PStr ''55''), (''extra'', PStr ''x'')]"
  let ?data = "dict_set ?d ''TIME'' (PInt (clock example_env 0))"
  have a1: \<open>json_loads example_env ''{"temp":"21.5","humi":"55","extra":"x"}'' = Inr (PDict ?d)\<close>
    by (simp add: example_defs)
  have a2: "\<forall>k x. map_of ?data k = Some x \<longrightarrow> dict_has example_label_map k \<longrightarrow>
              (\<exists>f. py_float example_env x = Inr f)"
    by (auto simp: example_label_map_def dict_has_def example_defs split: if_splits)
  from conjunct1 [OF mapped_fields_renamed [OF a1 a2]] obtain packet where
    p: \<open>yielded (fst (inner_loop example_env example_label_map 0
                         [''{"temp":"21.5","humi":"55","extra":"x"}''])) = [packet]
       \<and> fst ` set packet
           = insert ''usUnits'' {t. \<exists>k. (k = ''TIME'' \<or> k \<in> fst ` set ?d) \<and> map_of example_label_map k = Some t}
       \<and> (\<forall>k t x. map_of example_label_map k = Some t
             \<and> map_of ?data k = Some x
             \<and> (\<forall>k'. (k' = ''TIME'' \<or> k' \<in> fst ` set ?d) \<longrightarrow> k' \<noteq> k \<longrightarrow> map_of example_label_map k' \<noteq> Some t) \<longrightarrow>
             (\<exists>f. py_float example_env x = Inr f \<and> map_of packet t = Some (PFloat f)))\<close>
    by (rule exE)
  note y = conjunct1 [OF p]
  have ev: \<open>yielded (fst (inner_loop example_env example_label_map 0
                         [''{"temp":"21.5","humi":"55","extra":"x"}'']))
       = [[(''usUnits'', PInt METRIC), (''outTemp'', PFloat (Finite (43 / 2))),
           (''outHumidity'', PFloat (Finite 55))]]\<close>
    by (simp add: example_defs example_label_map_def loop_body_def get_as_float_def
          dict_has_def dict_get_def)
  from y ev have pk: "packet = [(''usUnits'', PInt METRIC), (''outTemp'', PFloat (Finite (43 / 2))),
           (''outHumidity'', PFloat (Finite 55))]"
    by simp
  have k: "fst ` set packet = {''usUnits'', ''outTemp'', ''outHumidity''}"
    unfolding pk by simp
  have v1: "map_of packet ''outTemp'' = Some (PFloat (Finite (43 / 2)))"
    unfolding pk by simp
  have v2: "map_of packet ''outHumidity'' = Some (PFloat (Finite 55))"
    unfolding pk by simp
  from a1 y k v1 v2 show ?thesis
    by (intro conjI exI [of _ packet])
qed

text \<open>With the label map \<open>temp = outTemp, humi = outHumidity\<close>, the payload of the
  example gives one packet with three fields; none of them is a timestamp.\<close>

theorem end_to_end_record_counterexample:
  \<open>yielded (fst (run example_env
       (example_station\<lparr>payloadQueue := [''{"temp":"21.5","humi":"55","extra":"x"}'']\<rparr>, 0, None)
       [Cycle]))
     = [[(''usUnits'', PInt METRIC), (''outTemp'', PFloat (Finite (43 / 2))),
         (''outHumidity'', PFloat (Finite 55))]]\<close>
  by (simp add: example_defs example_station_def cycle_def loop_body_def get_as_float_def
        dict_has_def dict_get_def)

section \<open>Exceptions that leave the generator\<close>

text \<open>
  C3.  A payload whose mapped field is \<open>null\<close>: \<open>float(None)\<close> raises \<open>TypeError\<close>,
  the clause \<open>except e:\<close> raises \<open>NameError\<close>, nothing catches it, and the generator
  ends with the next payload still in the queue.
\<close>

theorem null_field_ends_generator:
  \<open>inner_loop example_env example_label_map 0 [''{"temp":null}'', ''{}'']
     = ([Get ''{"temp":null}'',
         Log (DEBUG, WorkingOnQueue 1 ''{"temp":null}''),
         Log (DEBUG, KeyValueType ''temp'' PNone ''NoneType''),
         Log (DEBUG, KeyValueType ''TIME'' (PInt 1700000000) ''int''),
         Raise NameError],
        1, [''{}''], Some NameError)\<close>
  by (simp add: example_defs example_label_map_def loop_body_def get_as_float_def
        dict_has_def dict_get_def)

section \<open>The constructor\<close>

text \<open>
  C10.  Without a poll interval in the configuration the constructor raises nothing, and
  in the object it builds every option that was absent has its default: host
  \<open>localhost\<close>, topic \<open>weather\<close>, client id \<open>wxclient\<close>, poll interval \<open>5.0\<close>, and
  the empty label map, with which every packet holds the unit tag only.
\<close>

theorem init_defaults:
  "(opt_poll_interval cfg = None \<longrightarrow> (\<exists>self. snd (init env cfg) = Inr self))
   \<and> (\<forall>self. snd (init env cfg) = Inr self \<longrightarrow>
         (opt_host cfg = None \<longrightarrow> host self = ''localhost'')
       \<and> (opt_topic cfg = None \<longrightarrow> topic self = ''weather'')
       \<and> (opt_client cfg = None \<longrightarrow> client_id self = ''wxclient'')
       \<and> (opt_poll_interval cfg = None \<longrightarrow> poll_interval self = Finite 5)
       \<and> (opt_label_map cfg = None \<longrightarrow>
            label_map self = []
            \<and> (\<forall>qsize now msg l packet.
                  loop_body env (label_map self) qsize now msg = (l, Inr (Some packet)) \<longrightarrow>
                  packet = [(''usUnits'', PInt METRIC)])))"
proof -
  have fwd: "packet = [(''usUnits'', PInt METRIC)]"
    if "loop_body env [] qsize now msg = (l, Inr (Some packet))" for qsize now msg l packet
    using loop_body_yield [OF that] by (auto simp: map_fields_no_map)
  show ?thesis
    by (cases "py_float env (get_opt (opt_poll_interval cfg) (PFloat (Finite 5)))")
       (auto simp: init_def get_opt_def Let_def fwd split: option.splits)
qed

theorem init_defaults_witness:
  "opt_poll_interval example_no_options = None
   \<and> snd (init example_env example_no_options)
       = Inr \<lparr> host = ''localhost'', topic = ''weather'', username = ''no default'',
               password = ''no default'', client_id = ''wxclient'', poll_interval = Finite 5,
               label_map = [], payloadQueue = [], connected = False \<rparr>"
  using init_defaults [of example_no_options example_env]
  by (simp add: example_no_options_def init_def get_opt_def)

end
